theory Spec2Isabelle
  imports Main "HOL-Library.AList"
begin

section \<open>Python values, errors and outcomes\<close>

text \<open>
  The exceptions that the modelled functions of \<^verbatim>\<open>sysopt/symbolic/symbols.py\<close> and
  \<^verbatim>\<open>sysopt/symbolic/casts.py\<close> raise, or that the Python built-ins they call raise.
\<close>

datatype error =
    ValueError | KeyError | IndexError | TypeError | AttributeError
  | NotImplementedError | AssertionError | ZeroDivisionError

text \<open>
  A traversal of a graph recurses along the edge map and need not come back on a cyclic
  graph. Traversals therefore take fuel: \<open>None\<close> is "no answer within the fuel",
  \<open>Some (Inl e)\<close> is the exception \<open>e\<close>, \<open>Some (Inr y)\<close> is the returned value.
\<close>

type_synonym 'a outcome = "(error + 'a) option"

text \<open>
  The functions decorated with \<^verbatim>\<open>@register_op\<close> in \<^verbatim>\<open>symbols.py\<close>, in the order of
  registration: \<^verbatim>\<open>power, add, sub, matmul, neg, mul, div, transpose, evaluate_signal\<close>.
\<close>

datatype op =
    Op_power | Op_add | Op_sub | Op_matmul | Op_neg | Op_mul | Op_div | Op_transpose
  | Op_evaluate_signal

type_synonym shape = "int list"

text \<open>
  The objects that occur as nodes of a graph.
  \<^item> \<open>IntV n\<close> is the Python int \<open>n\<close>.
  \<^item> \<open>VarV i s\<close> is the \<^verbatim>\<open>Variable\<close> object of identity \<open>i\<close> whose \<^verbatim>\<open>_shape\<close> is \<open>s\<close>
    (its \<^verbatim>\<open>name\<close> plays no role in any function below).
  \<^item> \<open>ParamV b i\<close> is the \<^verbatim>\<open>Parameter\<close> object of \<^verbatim>\<open>uid = (id(block), index)\<close>; there is
    one such object for each uid (\<^verbatim>\<open>Parameter.__new__\<close>, modelled further down).
  \<^item> \<open>SigV p n\<close> is the \<^verbatim>\<open>SignalReference\<close> of the port of identity \<open>p\<close> and length \<open>n\<close>.
  \<^item> \<open>OpV f\<close> is the function object of the registered operator \<open>f\<close>.

  None of the classes defines \<^verbatim>\<open>__eq__\<close> (\<^verbatim>\<open>__cmp__\<close> is not used by Python 3), so \<^verbatim>\<open>==\<close>
  on these objects is identity, and on ints it is equality of the numbers: \<^verbatim>\<open>==\<close> is
  equality of the terms below. Floats, arrays and matrices are not represented.
\<close>

datatype pyval =
    IntV int
  | VarV nat shape
  | ParamV nat int
  | SigV nat nat
  | OpV op

section \<open>The operator and shape registry\<close>

text \<open>
  \<^verbatim>\<open>__ops\<close> after the module is loaded: a dictionary from the number of parameters of the
  function to the list of functions registered with that number.
\<close>

definition ops_table :: "(nat option \<times> op list) list" where
  "ops_table =
     [(Some 2, [Op_power, Op_add, Op_sub, Op_matmul, Op_mul, Op_div, Op_evaluate_signal]),
      (Some 1, [Op_neg, Op_transpose])]"

text \<open>\<^verbatim>\<open>is_op(value)\<close>: \<^verbatim>\<open>any(value in ops for ops in __ops.values())\<close>.\<close>

definition is_op :: "pyval \<Rightarrow> bool" where
  "is_op v = list_ex (\<lambda>ops. v \<in> set (map OpV ops)) (map snd ops_table)"

definition scalar_shape :: shape where
  "scalar_shape = [1]"







section \<open>Expression graphs\<close>

text \<open>
  \<^verbatim>\<open>class ExpressionGraph\<close>: the list \<^verbatim>\<open>nodes\<close>, the dictionary \<^verbatim>\<open>edges\<close> from a node index to
  the list of the indices of its arguments (an association list in insertion order,
  assigned to with \<open>AList.update\<close>, read with \<open>map_of\<close>) and the index \<^verbatim>\<open>head\<close>.
\<close>

record expression_graph =
  nodes :: "pyval list"
  edges :: "(nat \<times> nat list) list"
  head :: nat

text \<open>What user code passes as an argument of an operator: another graph or a value.\<close>

datatype operand = Graph expression_graph | Value pyval

text \<open>
  The argument of \<^verbatim>\<open>add_or_get_node\<close>: \<open>Self\<close> is the graph the method is called on (the
  test \<^verbatim>\<open>value is self\<close>), anything else is an operand.
\<close>

datatype node_arg = Self | Other operand

text \<open>\<^verbatim>\<open>list.index(value)\<close>: the first position of an equal element, \<open>None\<close> for ValueError.\<close>

fun list_index :: "'a list \<Rightarrow> 'a \<Rightarrow> nat option" where
  "list_index [] v = None"
| "list_index (x # xs) v = (if x = v then Some 0 else map_option Suc (list_index xs v))"

text \<open>
  \<^verbatim>\<open>add_or_get_node\<close> on a value that is no graph: an operator is appended, any other
  value is looked up with \<^verbatim>\<open>self.nodes.index(value)\<close> and appended only if absent.
\<close>

definition add_or_get_value :: "expression_graph \<Rightarrow> pyval \<Rightarrow> nat \<times> expression_graph" where
  "add_or_get_value g v =
     (if is_op v then (length (nodes g), g\<lparr>nodes := nodes g @ [v]\<rparr>)
      else case list_index (nodes g) v of
             Some idx \<Rightarrow> (idx, g)
           | None \<Rightarrow> (length (nodes g), g\<lparr>nodes := nodes g @ [v]\<rparr>))"

text \<open>
  The dictionary comprehension \<^verbatim>\<open>new_indices\<close> of \<^verbatim>\<open>merge_and_return_subgraph_head\<close>: the
  nodes of the other graph are inserted one after the other; the result lists the new
  index of each old index.
\<close>

fun add_nodes :: "expression_graph \<Rightarrow> pyval list \<Rightarrow> nat list \<times> expression_graph" where
  "add_nodes g [] = ([], g)"
| "add_nodes g (v # vs) =
     (case add_or_get_value g v of
        (idx, g') \<Rightarrow> (case add_nodes g' vs of (idxs, g'') \<Rightarrow> (idx # idxs, g'')))"

text \<open>\<^verbatim>\<open>new_indices[i]\<close>: KeyError for an index that is no old index.\<close>

definition new_index :: "nat list \<Rightarrow> nat \<Rightarrow> error + nat" where
  "new_index new_indices i =
     (if i < length new_indices then Inr (new_indices ! i) else Inl KeyError)"

fun new_index_list :: "nat list \<Rightarrow> nat list \<Rightarrow> error + nat list" where
  "new_index_list new_indices [] = Inr []"
| "new_index_list new_indices (c # cs) =
     (case new_index new_indices c of
        Inl e \<Rightarrow> Inl e
      | Inr c' \<Rightarrow> (case new_index_list new_indices cs of
                    Inl e \<Rightarrow> Inl e
                  | Inr cs' \<Rightarrow> Inr (c' # cs')))"

text \<open>
  The dictionary comprehension over \<^verbatim>\<open>other.edges.items()\<close>, built from the accumulator
  \<open>acc\<close> on.
\<close>

fun remap_edges ::
  "nat list \<Rightarrow> (nat \<times> nat list) list \<Rightarrow> (nat \<times> nat list) list \<Rightarrow> error + (nat \<times> nat list) list"
where
  "remap_edges new_indices acc [] = Inr acc"
| "remap_edges new_indices acc ((parent, children) # rest) =
     (case new_index new_indices parent of
        Inl e \<Rightarrow> Inl e
      | Inr parent' \<Rightarrow> (case new_index_list new_indices children of
                         Inl e \<Rightarrow> Inl e
                       | Inr children' \<Rightarrow>
                           remap_edges new_indices (AList.update parent' children' acc) rest))"

text \<open>\<^verbatim>\<open>dict.update(other)\<close>: the items of the other dictionary are assigned in order.\<close>

fun dict_update :: "('k \<times> 'v) list \<Rightarrow> ('k \<times> 'v) list \<Rightarrow> ('k \<times> 'v) list" where
  "dict_update d [] = d"
| "dict_update d ((k, v) # kvs) = dict_update (AList.update k v d) kvs"

definition merge_and_return_subgraph_head ::
  "expression_graph \<Rightarrow> expression_graph \<Rightarrow> error + (nat \<times> expression_graph)"
where
  "merge_and_return_subgraph_head g other =
     (case add_nodes g (nodes other) of
        (new_indices, g') \<Rightarrow>
          (case remap_edges new_indices [] (edges other) of
             Inl e \<Rightarrow> Inl e
           | Inr new_edges \<Rightarrow>
               (case new_index new_indices (head other) of
                  Inl e \<Rightarrow> Inl e
                | Inr h \<Rightarrow> Inr (h, g'\<lparr>edges := dict_update (edges g') new_edges\<rparr>))))"

text \<open>
  \<^verbatim>\<open>add_or_get_node(value)\<close>. The source tests \<^verbatim>\<open>value is self\<close>, then \<^verbatim>\<open>is_op(value)\<close>, then
  \<^verbatim>\<open>isinstance(value, ExpressionGraph)\<close>; a graph is no registered operator, so the
  three cases are disjoint.
\<close>

fun add_or_get_node :: "expression_graph \<Rightarrow> node_arg \<Rightarrow> error + (nat \<times> expression_graph)" where
  "add_or_get_node g Self = Inr (head g, g)"
| "add_or_get_node g (Other (Value v)) = Inr (add_or_get_value g v)"
| "add_or_get_node g (Other (Graph other)) = merge_and_return_subgraph_head g other"

text \<open>The list comprehension \<^verbatim>\<open>[self.add_or_get_node(a) for a in args]\<close>.\<close>

fun add_or_get_nodes ::
  "expression_graph \<Rightarrow> node_arg list \<Rightarrow> error + (nat list \<times> expression_graph)"
where
  "add_or_get_nodes g [] = Inr ([], g)"
| "add_or_get_nodes g (a # as) =
     (case add_or_get_node g a of
        Inl e \<Rightarrow> Inl e
      | Inr (idx, g') \<Rightarrow>
          (case add_or_get_nodes g' as of
             Inl e \<Rightarrow> Inl e
           | Inr (idxs, g'') \<Rightarrow> Inr (idx # idxs, g'')))"

text \<open>
  \<^verbatim>\<open>ExpressionGraph.__init__(op, *args)\<close>. The graph under construction is not yet known
  to the caller, so no argument is \<open>Self\<close>.
\<close>

definition ExpressionGraph :: "pyval \<Rightarrow> operand list \<Rightarrow> error + expression_graph" where
  "ExpressionGraph opv args =
     (case add_or_get_value \<lparr>nodes = [], edges = [], head = 0\<rparr> opv of
        (op_node, g0) \<Rightarrow>
          (case add_or_get_nodes g0 (map Other args) of
             Inl e \<Rightarrow> Inl e
           | Inr (idxs, g1) \<Rightarrow>
               Inr (g1\<lparr>edges := dict_update (edges g1) [(op_node, idxs)], head := op_node\<rparr>)))"

text \<open>\<^verbatim>\<open>push_op(op, *nodes)\<close>: the graph grows in place and is returned.\<close>

definition push_op :: "expression_graph \<Rightarrow> pyval \<Rightarrow> node_arg list \<Rightarrow> error + expression_graph" where
  "push_op g opv args =
     (case add_or_get_value g opv of
        (op_node, g0) \<Rightarrow>
          (case add_or_get_nodes g0 args of
             Inl e \<Rightarrow> Inl e
           | Inr (node_indices, g1) \<Rightarrow>
               Inr (g1\<lparr>edges := AList.update op_node node_indices (edges g1), head := op_node\<rparr>)))"

text \<open>
  The operator methods used below. A leaf class inherits \<^verbatim>\<open>Algebraic.__add__\<close>,
  \<^verbatim>\<open>__mul__\<close>, \<^verbatim>\<open>__matmul__\<close>, which build a new graph; \<^verbatim>\<open>ExpressionGraph\<close> overrides them
  by \<^verbatim>\<open>push_op\<close> on itself. \<^verbatim>\<open>SignalReference.__call__(t)\<close> applies \<^verbatim>\<open>evaluate_signal\<close>.
\<close>

definition Algebraic_add :: "pyval \<Rightarrow> operand \<Rightarrow> error + expression_graph" where
  "Algebraic_add self other = ExpressionGraph (OpV Op_add) [Value self, other]"

definition Algebraic_mul :: "pyval \<Rightarrow> operand \<Rightarrow> error + expression_graph" where
  "Algebraic_mul self other = ExpressionGraph (OpV Op_mul) [Value self, other]"


definition ExpressionGraph_add :: "expression_graph \<Rightarrow> operand \<Rightarrow> error + expression_graph" where
  "ExpressionGraph_add self other = push_op self (OpV Op_add) [Self, Other other]"

definition ExpressionGraph_radd :: "expression_graph \<Rightarrow> operand \<Rightarrow> error + expression_graph" where
  "ExpressionGraph_radd self other = push_op self (OpV Op_add) [Other other, Self]"

definition SignalReference_call :: "pyval \<Rightarrow> operand \<Rightarrow> error + expression_graph" where
  "SignalReference_call self t = ExpressionGraph (OpV Op_evaluate_signal) [Value self, t]"

section \<open>Traversals\<close>

text \<open>
  A list comprehension or generator over the children of a node: the elements are
  computed in order, and the first one that raises or does not return ends it.
\<close>

fun traverse :: "('a \<Rightarrow> 'b outcome) \<Rightarrow> 'a list \<Rightarrow> 'b list outcome" where
  "traverse f [] = Some (Inr [])"
| "traverse f (x # xs) =
     (case f x of
        None \<Rightarrow> None
      | Some (Inl e) \<Rightarrow> Some (Inl e)
      | Some (Inr y) \<Rightarrow>
          (case traverse f xs of
             None \<Rightarrow> None
           | Some (Inl e) \<Rightarrow> Some (Inl e)
           | Some (Inr ys) \<Rightarrow> Some (Inr (y # ys))))"

text \<open>\<^verbatim>\<open>_t = Variable('t')\<close>, returned by \<^verbatim>\<open>get_time_variable()\<close>: a Variable of scalar shape.\<close>

definition get_time_variable :: pyval where
  "get_time_variable = VarV 0 scalar_shape"

text \<open>
  \<^verbatim>\<open>obj.symbols()\<close> of a node that is no operator, with \<^verbatim>\<open>except AttributeError: return set()\<close>
  for an object that has no such method.
\<close>

fun leaf_symbols :: "pyval \<Rightarrow> pyval set" where
  "leaf_symbols (VarV i s) = {VarV i s}"
| "leaf_symbols (ParamV b i) = {ParamV b i}"
| "leaf_symbols (SigV p n) = {SigV p n, get_time_variable}"
| "leaf_symbols (IntV n) = {}"
| "leaf_symbols (OpV f) = {}"

text \<open>\<^verbatim>\<open>set.union(*sets)\<close>: a TypeError without an argument.\<close>

fun set_union :: "'a set list \<Rightarrow> error + 'a set" where
  "set_union [] = Inl TypeError"
| "set_union (s # ss) = Inr (s \<union> \<Union> (set ss))"

text \<open>\<^verbatim>\<open>recurse\<close> of \<^verbatim>\<open>ExpressionGraph.symbols\<close>.\<close>

fun symbols_recurse :: "nat \<Rightarrow> expression_graph \<Rightarrow> nat \<Rightarrow> pyval set outcome" where
  "symbols_recurse 0 g node = None"
| "symbols_recurse (Suc k) g node =
     (if length (nodes g) \<le> node then Some (Inl IndexError)
      else let obj = nodes g ! node in
        if \<not> is_op obj then Some (Inr (leaf_symbols obj))
        else case map_of (edges g) node of
               None \<Rightarrow> Some (Inl KeyError)
             | Some children \<Rightarrow>
                 (case traverse (symbols_recurse k g) children of
                    None \<Rightarrow> None
                  | Some (Inl e) \<Rightarrow> Some (Inl e)
                  | Some (Inr sets) \<Rightarrow>
                      (case set_union sets of
                         Inl e \<Rightarrow> Some (Inl e)
                       | Inr child_symbols \<Rightarrow>
                           if obj = OpV Op_evaluate_signal
                           then Some (Inr (child_symbols - {get_time_variable}))
                           else Some (Inr child_symbols))))"

definition ExpressionGraph_symbols :: "nat \<Rightarrow> expression_graph \<Rightarrow> pyval set outcome" where
  "ExpressionGraph_symbols k g = symbols_recurse k g (head g)"

text \<open>
  \<^verbatim>\<open>is_symbolic\<close>: \<^verbatim>\<open>self.symbols() != {}\<close>. The left operand is a set and the right one the
  empty dict literal. Neither \<^verbatim>\<open>set.__ne__\<close> nor \<^verbatim>\<open>dict.__ne__\<close> knows the other type, so
  Python falls back to comparing identities, and two containers of different types are
  unequal. A dictionary is the list of its items, with distinct keys.
\<close>

datatype container = PySet "pyval set" | PyDict "(pyval \<times> pyval) list"

fun py_ne :: "container \<Rightarrow> container \<Rightarrow> bool" where
  "py_ne (PySet a) (PySet b) = (a \<noteq> b)"
| "py_ne (PyDict a) (PyDict b) = (set a \<noteq> set b)"
| "py_ne _ _ = True"

definition ExpressionGraph_is_symbolic :: "nat \<Rightarrow> expression_graph \<Rightarrow> bool outcome" where
  "ExpressionGraph_is_symbolic k g =
     (case ExpressionGraph_symbols k g of
        None \<Rightarrow> None
      | Some (Inl e) \<Rightarrow> Some (Inl e)
      | Some (Inr s) \<Rightarrow> Some (Inr (py_ne (PySet s) (PyDict []))))"

text \<open>
  \<^verbatim>\<open>recurse\<close> of \<^verbatim>\<open>ExpressionGraph.call(values)\<close>. The values that evaluation produces are of
  a type \<open>'r\<close>; \<open>ap obj args\<close> is the outcome of the Python call \<^verbatim>\<open>obj(*args)\<close> of an
  operator, and \<open>as_value obj\<close> is a node object seen as a value (\<^verbatim>\<open>return obj\<close> for a leaf
  that \<^verbatim>\<open>values\<close> does not bind). \<^verbatim>\<open>values[obj]\<close> raises KeyError for a missing key, which
  is caught.
\<close>

fun call_recurse ::
  "(pyval \<Rightarrow> 'r list \<Rightarrow> 'r outcome) \<Rightarrow> (pyval \<Rightarrow> 'r) \<Rightarrow> (pyval \<rightharpoonup> 'r) \<Rightarrow>
   nat \<Rightarrow> expression_graph \<Rightarrow> nat \<Rightarrow> 'r outcome"
where
  "call_recurse ap as_value values 0 g node = None"
| "call_recurse ap as_value values (Suc k) g node =
     (if length (nodes g) \<le> node then Some (Inl IndexError)
      else let obj = nodes g ! node in
        if is_op obj then
          (case map_of (edges g) node of
             None \<Rightarrow> Some (Inl KeyError)
           | Some children \<Rightarrow>
               (case traverse (call_recurse ap as_value values k g) children of
                  None \<Rightarrow> None
                | Some (Inl e) \<Rightarrow> Some (Inl e)
                | Some (Inr args) \<Rightarrow> ap obj args))
        else (case values obj of Some v \<Rightarrow> Some (Inr v) | None \<Rightarrow> Some (Inr (as_value obj))))"

definition ExpressionGraph_call ::
  "(pyval \<Rightarrow> 'r list \<Rightarrow> 'r outcome) \<Rightarrow> (pyval \<Rightarrow> 'r) \<Rightarrow> nat \<Rightarrow> expression_graph \<Rightarrow>
   (pyval \<rightharpoonup> 'r) \<Rightarrow> 'r outcome"
where
  "ExpressionGraph_call ap as_value k g values = call_recurse ap as_value values k g (head g)"

text \<open>
  The bodies of the registered operators on Python ints, for evaluating examples:
  \<^verbatim>\<open>lhs + rhs\<close>, \<^verbatim>\<open>lhs - rhs\<close>, \<^verbatim>\<open>lhs * rhs\<close>, \<^verbatim>\<open>-obj\<close> and \<^verbatim>\<open>base ** exponent\<close> with an
  exponent that is not negative are ints again; \<^verbatim>\<open>lhs @ rhs\<close> and \<^verbatim>\<open>signal(t)\<close> are a
  TypeError on ints and \<^verbatim>\<open>matrix.T\<close> an AttributeError; a call with the wrong number of
  arguments is a TypeError. True division by a number other than zero and a negative
  power of a number other than zero yield floats, and operands that are symbols yield
  new graphs: these results are no ints, and the model gives no answer (\<open>None\<close>) there.
\<close>

fun binary_int :: "op \<Rightarrow> int \<Rightarrow> int \<Rightarrow> int outcome" where
  "binary_int Op_add lhs rhs = Some (Inr (lhs + rhs))"
| "binary_int Op_sub lhs rhs = Some (Inr (lhs - rhs))"
| "binary_int Op_mul lhs rhs = Some (Inr (lhs * rhs))"
| "binary_int Op_power base exponent =
     (if 0 \<le> exponent then Some (Inr (base ^ nat exponent))
      else if base = 0 then Some (Inl ZeroDivisionError) else None)"
| "binary_int Op_div lhs rhs = (if rhs = 0 then Some (Inl ZeroDivisionError) else None)"
| "binary_int Op_matmul lhs rhs = Some (Inl TypeError)"
| "binary_int Op_evaluate_signal signal t = Some (Inl TypeError)"
| "binary_int Op_neg lhs rhs = Some (Inl TypeError)"
| "binary_int Op_transpose lhs rhs = Some (Inl TypeError)"

fun unary_int :: "op \<Rightarrow> int \<Rightarrow> int outcome" where
  "unary_int Op_neg obj = Some (Inr (- obj))"
| "unary_int Op_transpose matrix = Some (Inl AttributeError)"
| "unary_int _ obj = Some (Inl TypeError)"

fun ints_of :: "pyval list \<Rightarrow> int list option" where
  "ints_of [] = Some []"
| "ints_of (IntV n # vs) = map_option ((#) n) (ints_of vs)"
| "ints_of (_ # vs) = None"

fun int_operator :: "pyval \<Rightarrow> pyval list \<Rightarrow> pyval outcome" where
  "int_operator (OpV f) args =
     (case ints_of args of
        None \<Rightarrow> None
      | Some [obj] \<Rightarrow> map_option (map_sum id IntV) (unary_int f obj)
      | Some [lhs, rhs] \<Rightarrow> map_option (map_sum id IntV) (binary_int f lhs rhs)
      | Some _ \<Rightarrow> Some (Inl TypeError))"
| "int_operator _ args = None"




text \<open>
  \<^verbatim>\<open>is_temporal(symbol)\<close> on an object that is no graph: a SignalReference and the time
  variable are temporal, nothing else is.
\<close>

definition is_temporal_value :: "pyval \<Rightarrow> bool" where
  "is_temporal_value symbol =
     (case symbol of
        SigV p n \<Rightarrow> True
      | _ \<Rightarrow> if symbol = get_time_variable then True
             else if is_op symbol then False
             else False)"

text \<open>\<^verbatim>\<open>all(...)\<close> over a generator: it stops at the first element that is false.\<close>

fun all_outcome :: "('a \<Rightarrow> bool outcome) \<Rightarrow> 'a list \<Rightarrow> bool outcome" where
  "all_outcome f [] = Some (Inr True)"
| "all_outcome f (x # xs) =
     (case f x of
        None \<Rightarrow> None
      | Some (Inl e) \<Rightarrow> Some (Inl e)
      | Some (Inr b) \<Rightarrow> if b then all_outcome f xs else Some (Inr False))"

text \<open>\<^verbatim>\<open>_is_subtree_constant(graph, node)\<close>; the nodes of a graph are no graphs.\<close>

fun is_subtree_constant :: "nat \<Rightarrow> expression_graph \<Rightarrow> nat \<Rightarrow> bool outcome" where
  "is_subtree_constant 0 g node = None"
| "is_subtree_constant (Suc k) g node =
     (if length (nodes g) \<le> node then Some (Inl IndexError)
      else let obj = nodes g ! node in
        if \<not> is_op obj then Some (Inr (\<not> is_temporal_value obj))
        else if obj = OpV Op_evaluate_signal then Some (Inr True)
        else case map_of (edges g) node of
               None \<Rightarrow> Some (Inl KeyError)
             | Some children \<Rightarrow> all_outcome (is_subtree_constant k g) children)"

fun is_temporal :: "nat \<Rightarrow> operand \<Rightarrow> bool outcome" where
  "is_temporal k (Graph g) =
     (case is_subtree_constant k g (head g) of
        None \<Rightarrow> None
      | Some (Inl e) \<Rightarrow> Some (Inl e)
      | Some (Inr c) \<Rightarrow> Some (Inr (\<not> c)))"
| "is_temporal k (Value v) = Some (Inr (is_temporal_value v))"

section \<open>Hashing a graph\<close>

text \<open>
  \<^verbatim>\<open>ExpressionGraph.__hash__\<close>: \<^verbatim>\<open>hash((self.edges, *[hash(n) for n in self.nodes]))\<close>. The
  argument of the outer \<^verbatim>\<open>hash\<close> is a tuple of the dictionary \<^verbatim>\<open>self.edges\<close> and of ints.
  Python's \<^verbatim>\<open>hash\<close> of a tuple hashes every item and combines the results; a dictionary
  is unhashable (TypeError). The hash of an int and the combination are parameters
  \<open>hash_int\<close> and \<open>combine\<close>, and so is the hash \<open>node_hash\<close> of a node object
  (\<^verbatim>\<open>hash(id(self))\<close>, \<^verbatim>\<open>hash(self.uid)\<close>, \<^verbatim>\<open>hash(self.port)\<close>, ...), which may raise.
\<close>

datatype hash_arg = HInt int | HDict "(nat \<times> nat list) list" | HTuple "hash_arg list"

fun py_hash :: "(int \<Rightarrow> int) \<Rightarrow> (int list \<Rightarrow> int) \<Rightarrow> hash_arg \<Rightarrow> error + int"
  and py_hash_items :: "(int \<Rightarrow> int) \<Rightarrow> (int list \<Rightarrow> int) \<Rightarrow> hash_arg list \<Rightarrow> error + int list"
where
  "py_hash hash_int combine (HInt n) = Inr (hash_int n)"
| "py_hash hash_int combine (HDict d) = Inl TypeError"
| "py_hash hash_int combine (HTuple items) =
     (case py_hash_items hash_int combine items of
        Inl e \<Rightarrow> Inl e
      | Inr hs \<Rightarrow> Inr (combine hs))"
| "py_hash_items hash_int combine [] = Inr []"
| "py_hash_items hash_int combine (x # xs) =
     (case py_hash hash_int combine x of
        Inl e \<Rightarrow> Inl e
      | Inr h \<Rightarrow> (case py_hash_items hash_int combine xs of
                   Inl e \<Rightarrow> Inl e
                 | Inr hs \<Rightarrow> Inr (h # hs)))"

text \<open>The list comprehension \<^verbatim>\<open>[hash(n) for n in self.nodes]\<close>.\<close>

fun node_hashes :: "(pyval \<Rightarrow> error + int) \<Rightarrow> pyval list \<Rightarrow> error + int list" where
  "node_hashes node_hash [] = Inr []"
| "node_hashes node_hash (n # ns) =
     (case node_hash n of
        Inl e \<Rightarrow> Inl e
      | Inr h \<Rightarrow> (case node_hashes node_hash ns of
                   Inl e \<Rightarrow> Inl e
                 | Inr hs \<Rightarrow> Inr (h # hs)))"

definition ExpressionGraph_hash ::
  "(pyval \<Rightarrow> error + int) \<Rightarrow> (int \<Rightarrow> int) \<Rightarrow> (int list \<Rightarrow> int) \<Rightarrow> expression_graph \<Rightarrow> error + int"
where
  "ExpressionGraph_hash node_hash hash_int combine g =
     (case node_hashes node_hash (nodes g) of
        Inl e \<Rightarrow> Inl e
      | Inr hs \<Rightarrow> py_hash hash_int combine (HTuple (HDict (edges g) # map HInt hs)))"

section \<open>Parameters\<close>

text \<open>
  The block collaborator, as far as \<^verbatim>\<open>Parameter\<close> uses it: its identity \<^verbatim>\<open>id(block)\<close>,
  its list \<^verbatim>\<open>parameters\<close> of names, and the outcome of \<^verbatim>\<open>block.find_by_name(kind, name)\<close>,
  which is a parameter of the model.
\<close>

record block =
  block_id :: nat
  parameters :: "string list"
  find_by_name :: "string \<Rightarrow> string \<Rightarrow> error + int"

text \<open>
  \<^verbatim>\<open>find_param_index_by_name(block, name)\<close>: only a ValueError of the two lookups is
  caught.
\<close>

definition find_param_index_by_name :: "block \<Rightarrow> string \<Rightarrow> error + int" where
  "find_param_index_by_name b name =
     (case find_by_name b ''parameters'' name of
        Inr i \<Rightarrow> Inr i
      | Inl e \<Rightarrow>
          if e \<noteq> ValueError then Inl e
          else (case list_index (parameters b) name of
                  Some i \<Rightarrow> Inr (int i)
                | None \<Rightarrow> Inl ValueError))"

text \<open>The argument \<^verbatim>\<open>parameter: Union[str, int]\<close>.\<close>

datatype parameter_ref = ByName string | ByIndex int

text \<open>
  A \<^verbatim>\<open>Parameter\<close> object: its identity and the attributes \<^verbatim>\<open>uid\<close>, \<^verbatim>\<open>index\<close> and \<^verbatim>\<open>_parent\<close>
  (a weak reference to the block, here the identity of the block).
\<close>

record parameter =
  object_id :: nat
  uid :: "nat \<times> int"
  index :: int
  parent :: nat

text \<open>
  The state that \<^verbatim>\<open>Parameter.__new__\<close> works on: the class attribute \<^verbatim>\<open>_table\<close> and the
  identity that the next new object gets.
\<close>

record parameter_state =
  table :: "(nat \<times> int) \<rightharpoonup> parameter"
  next_object :: nat

definition Parameter_new ::
  "block \<Rightarrow> parameter_ref \<Rightarrow> parameter_state \<Rightarrow> (error + parameter) \<times> parameter_state"
where
  "Parameter_new b p s =
     (case (case p of ByName name \<Rightarrow> find_param_index_by_name b name | ByIndex i \<Rightarrow> Inr i) of
        Inl e \<Rightarrow> (Inl e, s)
      | Inr idx \<Rightarrow>
          if \<not> (0 \<le> idx \<and> idx < int (length (parameters b))) then (Inl AssertionError, s)
          else let u = (block_id b, idx) in
            (case table s u of
               Some obj \<Rightarrow> (Inr obj, s)
             | None \<Rightarrow>
                 let obj = \<lparr>object_id = next_object s, uid = u, index = idx, parent = block_id b\<rparr>
                 in (Inr obj, s\<lparr>table := (table s)(u \<mapsto> obj), next_object := Suc (next_object s)\<rparr>)))"

text \<open>Any further constructions, whatever they return.\<close>

fun constructions :: "(block \<times> parameter_ref) list \<Rightarrow> parameter_state \<Rightarrow> parameter_state" where
  "constructions [] s = s"
| "constructions ((b, p) # rest) s = constructions rest (snd (Parameter_new b p s))"

section \<open>The cast registry\<close>

text \<open>
  \<^verbatim>\<open>_registry\<close> of \<^verbatim>\<open>casts.py\<close>: a dictionary from the source type to a dictionary from the
  target type to the converter. A converter is a function on values that may raise.
\<close>

type_synonym ('t, 'v) registry = "('t \<times> ('t \<times> ('v \<Rightarrow> error + 'v)) list) list"

text \<open>\<^verbatim>\<open>register(from_type, to_type)(the_caster)\<close>.\<close>

definition register ::
  "'t \<Rightarrow> 't \<Rightarrow> ('v \<Rightarrow> error + 'v) \<Rightarrow> ('t, 'v) registry \<Rightarrow> error + ('t, 'v) registry"
where
  "register from_type to_type the_caster reg =
     (case map_of reg from_type of
        None \<Rightarrow> Inr (AList.update from_type (AList.update to_type the_caster []) reg)
      | Some casters \<Rightarrow>
          if to_type \<in> fst ` set casters then Inl AssertionError
          else Inr (AList.update from_type (AList.update to_type the_caster casters) reg))"

text \<open>The registrations of a program, from the empty registry on; a failed one ends it.\<close>

fun register_all ::
  "('t \<times> 't \<times> ('v \<Rightarrow> error + 'v)) list \<Rightarrow> ('t, 'v) registry \<Rightarrow> error + ('t, 'v) registry"
where
  "register_all [] reg = Inr reg"
| "register_all ((from_type, to_type, the_caster) # rest) reg =
     (case register from_type to_type the_caster reg of
        Inl e \<Rightarrow> Inl e
      | Inr reg' \<Rightarrow> register_all rest reg')"

text \<open>
  \<^verbatim>\<open>cast_type(var, to_type=None)\<close>; \<open>type_of\<close> is Python's \<^verbatim>\<open>type\<close>. The KeyError of a
  missing key becomes NotImplementedError, and \<^verbatim>\<open>len(casters) != 1\<close> a TypeError.
\<close>

definition cast_type ::
  "('v \<Rightarrow> 't) \<Rightarrow> ('t, 'v) registry \<Rightarrow> 'v \<Rightarrow> 't option \<Rightarrow> error + 'v"
where
  "cast_type type_of reg var to_type =
     (let from_type = type_of var in
      case to_type of
        None \<Rightarrow>
          (case map_of reg from_type of
             None \<Rightarrow> Inl NotImplementedError
           | Some casters \<Rightarrow>
               if length casters \<noteq> 1 then Inl TypeError
               else (snd (hd casters)) var)
      | Some t \<Rightarrow>
          (case map_of reg from_type of
             None \<Rightarrow> Inl NotImplementedError
           | Some casters \<Rightarrow>
               (case map_of casters t of
                  None \<Rightarrow> Inl NotImplementedError
                | Some caster \<Rightarrow> caster var)))"

text \<open>
  The converters that a list of registrations holds for a source type, each with its
  target type, in the order of registration.
\<close>

definition converters_for ::
  "'t \<Rightarrow> ('t \<times> 't \<times> ('v \<Rightarrow> error + 'v)) list \<Rightarrow> ('t \<times> ('v \<Rightarrow> error + 'v)) list"
where
  "converters_for t regs = map snd (filter (\<lambda>r. fst r = t) regs)"

section \<open>The expression that a graph denotes\<close>

text \<open>
  The specification speaks of subtrees, their root operators and their leaves. The tree
  below a node is read off the graph; there is none (\<open>None\<close>) within the fuel, or where
  an index is no node or an operator node has no entry in the edge map.
\<close>

datatype expr = Leaf pyval | Apply pyval "expr list"

fun subtree :: "nat \<Rightarrow> expression_graph \<Rightarrow> nat \<Rightarrow> expr option" where
  "subtree 0 g node = None"
| "subtree (Suc k) g node =
     (if length (nodes g) \<le> node then None
      else let obj = nodes g ! node in
        if is_op obj then
          (case map_of (edges g) node of
             None \<Rightarrow> None
           | Some children \<Rightarrow> map_option (Apply obj) (those (map (subtree k g) children)))
        else Some (Leaf obj))"

text \<open>Every operator of the tree is applied to at least one argument.\<close>

fun has_arguments :: "expr \<Rightarrow> bool" where
  "has_arguments (Leaf v) = True"
| "has_arguments (Apply f es) = (es \<noteq> [] \<and> list_all has_arguments es)"

text \<open>
  The symbol set of a tree in the words of the specification: a Variable and a Parameter
  contribute themselves, a bare SignalReference itself and the time variable, a constant
  nothing; an operator contributes the union of the sets of its children, minus the time
  variable if it is the signal-evaluation operator.
\<close>

fun spec_symbols :: "expr \<Rightarrow> pyval set" where
  "spec_symbols (Leaf v) =
     (case v of
        VarV i s \<Rightarrow> {v}
      | ParamV b i \<Rightarrow> {v}
      | SigV p n \<Rightarrow> {v, get_time_variable}
      | _ \<Rightarrow> {})"
| "spec_symbols (Apply f es) =
     (if f = OpV Op_evaluate_signal
      then (\<Union>e \<in> set es. spec_symbols e) - {get_time_variable}
      else (\<Union>e \<in> set es. spec_symbols e))"

section \<open>Basic facts\<close>

lemma is_op_iff: "is_op v = (\<exists>f. v = OpV f)"
proof
  assume "is_op v"
  then show "\<exists>f. v = OpV f" by (auto simp: is_op_def ops_table_def)
next
  assume "\<exists>f. v = OpV f"
  then obtain f where "v = OpV f" ..
  then show "is_op v" by (cases f) (simp_all add: is_op_def ops_table_def)
qed

lemma list_index_Some: "list_index xs v = Some i \<Longrightarrow> i < length xs \<and> xs ! i = v"
  by (induction xs arbitrary: i) (auto split: if_splits)

lemma list_index_None: "(list_index xs v = None) = (v \<notin> set xs)"
  by (induction xs) auto

lemma list_index_append_new: "v \<notin> set xs \<Longrightarrow> list_index (xs @ [v]) v = Some (length xs)"
  by (induction xs) auto

section \<open>Insertion of nodes\<close>

text \<open>
  Claim C4. In every graph, \<^verbatim>\<open>add_or_get_node\<close> on a leaf value that is equal to a node
  of the graph returns an index of the graph at which that value stands, and leaves the
  graph as it is; inserting a leaf twice, present before or not, returns the same index
  both times, an index at which the leaf stands after the first insertion (a leaf that
  was absent is appended and gets the index of the new node), and the second insertion
  changes nothing; on a registered operator it appends the operator and returns the
  index of the new node, whatever the graph holds.
\<close>

theorem add_or_get_node_dedup:
  "(v \<in> set (nodes g) \<and> \<not> is_op v \<longrightarrow>
      (\<exists>idx. add_or_get_node g (Other (Value v)) = Inr (idx, g)
            \<and> idx < length (nodes g) \<and> nodes g ! idx = v))
   \<and> (\<not> is_op v \<longrightarrow>
      (\<exists>idx g'. add_or_get_node g (Other (Value v)) = Inr (idx, g')
               \<and> idx < length (nodes g') \<and> nodes g' ! idx = v
               \<and> (v \<notin> set (nodes g) \<longrightarrow>
                     idx = length (nodes g) \<and> g' = g\<lparr>nodes := nodes g @ [v]\<rparr>)
               \<and> add_or_get_node g' (Other (Value v)) = Inr (idx, g')))
   \<and> (is_op v \<longrightarrow>
      add_or_get_node g (Other (Value v))
        = Inr (length (nodes g), g\<lparr>nodes := nodes g @ [v]\<rparr>))"
proof (intro conjI impI)
  assume h: "v \<in> set (nodes g) \<and> \<not> is_op v"
  then obtain i where i: "list_index (nodes g) v = Some i"
    using list_index_None [of "nodes g" v] by (cases "list_index (nodes g) v") auto
  with h list_index_Some [OF i]
  show "\<exists>idx. add_or_get_node g (Other (Value v)) = Inr (idx, g)
            \<and> idx < length (nodes g) \<and> nodes g ! idx = v"
    by (simp add: add_or_get_value_def)
next
  assume h: "\<not> is_op v"
  show "\<exists>idx g'. add_or_get_node g (Other (Value v)) = Inr (idx, g')
               \<and> idx < length (nodes g') \<and> nodes g' ! idx = v
               \<and> (v \<notin> set (nodes g) \<longrightarrow>
                     idx = length (nodes g) \<and> g' = g\<lparr>nodes := nodes g @ [v]\<rparr>)
               \<and> add_or_get_node g' (Other (Value v)) = Inr (idx, g')"
  proof (cases "list_index (nodes g) v")
    case None
    then have "v \<notin> set (nodes g)" by (simp add: list_index_None)
    with h None show ?thesis
      by (simp add: add_or_get_value_def list_index_append_new)
  next
    case (Some i)
    from Some have "v \<in> set (nodes g)"
      using list_index_None [of "nodes g" v] by auto
    with h Some list_index_Some [OF Some] show ?thesis
      by (simp add: add_or_get_value_def)
  qed
next
  assume "is_op v"
  then show "add_or_get_node g (Other (Value v))
        = Inr (length (nodes g), g\<lparr>nodes := nodes g @ [v]\<rparr>)"
    by (simp add: add_or_get_value_def)
qed

theorem add_or_get_node_dedup_witness:
  "(let g = \<lparr>nodes = [OpV Op_add, VarV 1 [1], IntV 2], edges = [(0, [1, 2])], head = 0\<rparr>;
        g' = \<lparr>nodes = [OpV Op_add, VarV 1 [1], IntV 2, ParamV 5 0],
               edges = [(0, [1, 2])], head = 0\<rparr>
    in VarV 1 [1] \<in> set (nodes g) \<and> \<not> is_op (VarV 1 [1]) \<and> is_op (OpV Op_add)
     \<and> OpV Op_add \<in> set (nodes g)
     \<and> ParamV 5 0 \<notin> set (nodes g) \<and> \<not> is_op (ParamV 5 0)
     \<and> add_or_get_node g (Other (Value (VarV 1 [1]))) = Inr (1, g)
     \<and> add_or_get_node g (Other (Value (ParamV 5 0))) = Inr (3, g')
     \<and> nodes g' ! 3 = ParamV 5 0
     \<and> add_or_get_node g' (Other (Value (ParamV 5 0))) = Inr (3, g')
     \<and> add_or_get_node g (Other (Value (OpV Op_add)))
         = Inr (3, g\<lparr>nodes := [OpV Op_add, VarV 1 [1], IntV 2, OpV Op_add]\<rparr>))"
proof -
  let ?g = "\<lparr>nodes = [OpV Op_add, VarV 1 [1], IntV 2], edges = [(0, [1, 2])], head = 0\<rparr>"
  let ?g' = "\<lparr>nodes = [OpV Op_add, VarV 1 [1], IntV 2, ParamV 5 0],
               edges = [(0, [1, 2])], head = 0\<rparr>"
  have leaves: "VarV 1 [1] \<in> set (nodes ?g) \<and> \<not> is_op (VarV 1 [1]) \<and> is_op (OpV Op_add)
     \<and> OpV Op_add \<in> set (nodes ?g) \<and> ParamV 5 0 \<notin> set (nodes ?g) \<and> \<not> is_op (ParamV 5 0)"
    by (simp add: is_op_iff)
  from add_or_get_node_dedup [of "ParamV 5 0" ?g] leaves
  obtain idx h where first: "add_or_get_node ?g (Other (Value (ParamV 5 0))) = Inr (idx, h)"
    and at: "nodes h ! idx = ParamV 5 0"
    and fresh: "idx = length (nodes ?g) \<and> h = ?g\<lparr>nodes := nodes ?g @ [ParamV 5 0]\<rparr>"
    and again: "add_or_get_node h (Other (Value (ParamV 5 0))) = Inr (idx, h)"
    by blast
  from fresh have idx: "idx = 3" and h: "h = ?g'" by simp_all
  from add_or_get_node_dedup [of "VarV 1 [1]" ?g] leaves
  have present: "add_or_get_node ?g (Other (Value (VarV 1 [1]))) = Inr (1, ?g)"
    by (simp add: add_or_get_value_def)
  from add_or_get_node_dedup [of "OpV Op_add" ?g] leaves
  have appended: "add_or_get_node ?g (Other (Value (OpV Op_add)))
         = Inr (3, ?g\<lparr>nodes := [OpV Op_add, VarV 1 [1], IntV 2, OpV Op_add]\<rparr>)"
    by simp
  from leaves present appended first at again show ?thesis
    unfolding idx h Let_def by simp
qed

section \<open>Shapes\<close>



section \<open>Evaluation\<close>

text \<open>
  Claim C3. For every registered binary operator \<open>f\<close>, every two leaves \<open>a \<noteq> b\<close> and
  all values \<open>x\<close> and \<open>y\<close>, the graph \<^verbatim>\<open>ExpressionGraph(f, a, b)\<close> is built, and its \<^verbatim>\<open>call\<close>
  with the bindings \<^verbatim>\<open>{a: x, b: y}\<close> is the call \<^verbatim>\<open>f(x, y)\<close>, whatever that call does. The
  graph \<^verbatim>\<open>a + b\<close> of two Variables with \<open>a = 2\<close> and \<open>b = 3\<close> evaluates to \<open>5\<close>.
\<close>

theorem call_binary_operator:
  "(map_of ops_table (Some 2) = Some ops \<and> f \<in> set ops \<and> a \<noteq> b \<and> \<not> is_op a \<and> \<not> is_op b
    \<longrightarrow> (\<exists>g. ExpressionGraph (OpV f) [Value a, Value b] = Inr g
            \<and> (\<forall>k. ExpressionGraph_call ap as_value (Suc (Suc k)) g [a \<mapsto> x, b \<mapsto> y]
                    = ap (OpV f) [x, y])))
   \<and> (\<exists>g. Algebraic_add (VarV 1 [1]) (Value (VarV 2 [1])) = Inr g
         \<and> ExpressionGraph_call int_operator (\<lambda>v. v) 2 g
             [VarV 1 [1] \<mapsto> IntV 2, VarV 2 [1] \<mapsto> IntV 3] = Some (Inr (IntV 5)))"
proof (intro conjI impI)
  assume h: "map_of ops_table (Some 2) = Some ops \<and> f \<in> set ops \<and> a \<noteq> b
               \<and> \<not> is_op a \<and> \<not> is_op b"
  let ?g = "\<lparr>nodes = [OpV f, a, b], edges = [(0, [1, 2])], head = 0\<rparr>"
  from h have build: "ExpressionGraph (OpV f) [Value a, Value b] = Inr ?g"
    by (auto simp: ExpressionGraph_def add_or_get_value_def is_op_iff)
  have "ExpressionGraph_call ap as_value (Suc (Suc k)) ?g [a \<mapsto> x, b \<mapsto> y]
          = ap (OpV f) [x, y]" for k
    using h by (simp add: ExpressionGraph_call_def is_op_iff)
  with build
  show "\<exists>g. ExpressionGraph (OpV f) [Value a, Value b] = Inr g
            \<and> (\<forall>k. ExpressionGraph_call ap as_value (Suc (Suc k)) g [a \<mapsto> x, b \<mapsto> y]
                    = ap (OpV f) [x, y])"
    by blast
next
  show "\<exists>g. Algebraic_add (VarV 1 [1]) (Value (VarV 2 [1])) = Inr g
         \<and> ExpressionGraph_call int_operator (\<lambda>v. v) 2 g
             [VarV 1 [1] \<mapsto> IntV 2, VarV 2 [1] \<mapsto> IntV 3] = Some (Inr (IntV 5))"
    by (simp add: Algebraic_add_def ExpressionGraph_def add_or_get_value_def is_op_iff
          ExpressionGraph_call_def numeral_2_eq_2)
qed

theorem call_binary_operator_witness:
  "map_of ops_table (Some 2)
     = Some [Op_power, Op_add, Op_sub, Op_matmul, Op_mul, Op_div, Op_evaluate_signal]
   \<and> Op_mul \<in> set [Op_power, Op_add, Op_sub, Op_matmul, Op_mul, Op_div, Op_evaluate_signal]
   \<and> ParamV 5 0 \<noteq> VarV 1 [1] \<and> \<not> is_op (ParamV 5 0) \<and> \<not> is_op (VarV 1 [1])
   \<and> (\<exists>g. ExpressionGraph (OpV Op_mul) [Value (ParamV 5 0), Value (VarV 1 [1])] = Inr g
         \<and> ExpressionGraph_call int_operator (\<lambda>v. v) 2 g
             [ParamV 5 0 \<mapsto> IntV 4, VarV 1 [1] \<mapsto> IntV 6] = Some (Inr (IntV 24)))"
proof -
  have ops: "map_of ops_table (Some 2)
     = Some [Op_power, Op_add, Op_sub, Op_matmul, Op_mul, Op_div, Op_evaluate_signal]"
    by (simp add: ops_table_def)
  have leaves: "ParamV 5 0 \<noteq> VarV 1 [1] \<and> \<not> is_op (ParamV 5 0) \<and> \<not> is_op (VarV 1 [1])"
    by (simp add: is_op_iff)
  from call_binary_operator
      [of "[Op_power, Op_add, Op_sub, Op_matmul, Op_mul, Op_div, Op_evaluate_signal]"
          Op_mul "ParamV 5 0" "VarV 1 [1]" int_operator "\<lambda>v. v" "IntV 4" "IntV 6"]
    ops leaves
  obtain g where g: "ExpressionGraph (OpV Op_mul) [Value (ParamV 5 0), Value (VarV 1 [1])] = Inr g"
    and c: "\<forall>k. ExpressionGraph_call int_operator (\<lambda>v. v) (Suc (Suc k)) g
             [ParamV 5 0 \<mapsto> IntV 4, VarV 1 [1] \<mapsto> IntV 6]
               = int_operator (OpV Op_mul) [IntV 4, IntV 6]"
    by auto
  from c have "ExpressionGraph_call int_operator (\<lambda>v. v) 2 g
             [ParamV 5 0 \<mapsto> IntV 4, VarV 1 [1] \<mapsto> IntV 6] = Some (Inr (IntV 24))"
    by (simp add: numeral_2_eq_2)
  with g ops leaves show ?thesis by auto
qed

section \<open>Temporal classification\<close>

lemma is_temporal_value_simps:
  "is_temporal_value (SigV p n) = True"
  "is_temporal_value (ParamV b j) = False"
  "is_temporal_value (IntV c) = False"
  "is_temporal_value (OpV f) = False"
  "is_temporal_value (VarV i s) = (VarV i s = get_time_variable)"
  by (simp_all add: is_temporal_value_def get_time_variable_def)

text \<open>
  Claim C2, as the code has it. A bare Variable other than the global time variable and
  a bare Parameter are never temporal, while the time variable, itself a Variable, is
  temporal. The graph \<^verbatim>\<open>var + sig\<close> of a Variable and a bare SignalReference is
  temporal. The graph \<^verbatim>\<open>var + sig(t)\<close>, where the signal is applied at the time variable,
  is temporal only if \<^verbatim>\<open>var\<close> is the time variable itself: a subtree rooted at the
  signal-evaluation operator counts as constant whatever its time argument is. The graph
  \<^verbatim>\<open>sig(c)\<close> of a signal applied at a literal time, such as \<^verbatim>\<open>sig(0)\<close>, is not temporal.
\<close>

theorem is_temporal_classification:
  "(VarV i s \<noteq> get_time_variable \<longrightarrow> is_temporal k (Value (VarV i s)) = Some (Inr False))
   \<and> is_temporal k (Value get_time_variable) = Some (Inr True)
   \<and> is_temporal k (Value (ParamV b j)) = Some (Inr False)
   \<and> (\<exists>g. Algebraic_add (VarV i s) (Value (SigV p n)) = Inr g
         \<and> is_temporal (Suc (Suc k)) (Graph g) = Some (Inr True))
   \<and> (\<exists>g1 g. SignalReference_call (SigV p n) (Value get_time_variable) = Inr g1
         \<and> Algebraic_add (VarV i s) (Graph g1) = Inr g
         \<and> is_temporal (Suc (Suc k)) (Graph g) = Some (Inr (VarV i s = get_time_variable)))
   \<and> (\<exists>g. SignalReference_call (SigV p n) (Value (IntV c)) = Inr g
         \<and> is_temporal (Suc k) (Graph g) = Some (Inr False))"
proof (intro conjI impI)
  show "is_temporal k (Value get_time_variable) = Some (Inr True)"
    by (simp add: is_temporal_value_def get_time_variable_def)
  show "is_temporal k (Value (ParamV b j)) = Some (Inr False)"
    by (simp add: is_temporal_value_simps)
  show "\<exists>g. Algebraic_add (VarV i s) (Value (SigV p n)) = Inr g
         \<and> is_temporal (Suc (Suc k)) (Graph g) = Some (Inr True)"
    by (simp add: Algebraic_add_def ExpressionGraph_def add_or_get_value_def is_op_iff
          is_temporal_value_simps)
  show "\<exists>g. SignalReference_call (SigV p n) (Value (IntV c)) = Inr g
         \<and> is_temporal (Suc k) (Graph g) = Some (Inr False)"
    by (simp add: SignalReference_call_def ExpressionGraph_def add_or_get_value_def is_op_iff)
  show "\<exists>g1 g. SignalReference_call (SigV p n) (Value get_time_variable) = Inr g1
         \<and> Algebraic_add (VarV i s) (Graph g1) = Inr g
         \<and> is_temporal (Suc (Suc k)) (Graph g) = Some (Inr (VarV i s = get_time_variable))"
    by (cases "VarV i s = get_time_variable")
       (auto simp: SignalReference_call_def Algebraic_add_def ExpressionGraph_def
          add_or_get_value_def merge_and_return_subgraph_head_def new_index_def is_op_iff
          is_temporal_value_simps get_time_variable_def)
next
  assume "VarV i s \<noteq> get_time_variable"
  then show "is_temporal k (Value (VarV i s)) = Some (Inr False)"
    by (simp add: is_temporal_value_simps)
qed

theorem is_temporal_classification_witness:
  "VarV 1 [1] \<noteq> get_time_variable \<and> is_temporal 1 (Value (VarV 1 [1])) = Some (Inr False)"
  using is_temporal_classification [of 1 "[1]" 1]
  by (simp add: get_time_variable_def)

text \<open>
  Claim C2 as stated fails twice. The time variable is a bare Variable and is temporal;
  and for the Variable \<^verbatim>\<open>var\<close> of identity 1 and a SignalReference \<^verbatim>\<open>sig\<close>, the graph
  \<^verbatim>\<open>var + sig(t)\<close> is not temporal.
\<close>

theorem is_temporal_counterexample:
  "is_temporal 1 (Value (VarV 0 [1])) = Some (Inr True)
   \<and> VarV 0 [1] = get_time_variable
   \<and> SignalReference_call (SigV 2 3) (Value get_time_variable)
       = Inr \<lparr>nodes = [OpV Op_evaluate_signal, SigV 2 3, VarV 0 [1]],
              edges = [(0, [1, 2])], head = 0\<rparr>
   \<and> Algebraic_add (VarV 1 [1])
        (Graph \<lparr>nodes = [OpV Op_evaluate_signal, SigV 2 3, VarV 0 [1]],
                edges = [(0, [1, 2])], head = 0\<rparr>)
       = Inr \<lparr>nodes = [OpV Op_add, VarV 1 [1], OpV Op_evaluate_signal, SigV 2 3, VarV 0 [1]],
              edges = [(2, [3, 4]), (0, [1, 2])], head = 0\<rparr>
   \<and> is_temporal 3
        (Graph \<lparr>nodes = [OpV Op_add, VarV 1 [1], OpV Op_evaluate_signal, SigV 2 3, VarV 0 [1]],
                edges = [(2, [3, 4]), (0, [1, 2])], head = 0\<rparr>)
       = Some (Inr False)"
  by (simp add: is_temporal_value_simps get_time_variable_def scalar_shape_def
        SignalReference_call_def Algebraic_add_def ExpressionGraph_def add_or_get_value_def
        merge_and_return_subgraph_head_def new_index_def is_op_iff numeral_3_eq_3)

section \<open>Hashing\<close>

text \<open>
  Claim C7 says that the hash of every graph is computed without an exception. The code
  hashes a tuple whose first item is the dictionary \<^verbatim>\<open>self.edges\<close>: for every graph, and
  whatever the hashes of ints, tuples and nodes are, \<^verbatim>\<open>__hash__\<close> raises. For the graph
  \<^verbatim>\<open>ExpressionGraph(add, 1, 2)\<close> the exception is the TypeError of the unhashable dict.
\<close>

theorem ExpressionGraph_hash_raises:
  "(\<exists>e. ExpressionGraph_hash node_hash hash_int combine g = Inl e)
   \<and> ExpressionGraph (OpV Op_add) [Value (IntV 1), Value (IntV 2)]
       = Inr \<lparr>nodes = [OpV Op_add, IntV 1, IntV 2], edges = [(0, [1, 2])], head = 0\<rparr>
   \<and> ExpressionGraph_hash (\<lambda>v. Inr 0) hash_int combine
        \<lparr>nodes = [OpV Op_add, IntV 1, IntV 2], edges = [(0, [1, 2])], head = 0\<rparr>
       = Inl TypeError"
proof (intro conjI)
  show "\<exists>e. ExpressionGraph_hash node_hash hash_int combine g = Inl e"
    by (cases "node_hashes node_hash (nodes g)") (simp_all add: ExpressionGraph_hash_def)
  show "ExpressionGraph (OpV Op_add) [Value (IntV 1), Value (IntV 2)]
       = Inr \<lparr>nodes = [OpV Op_add, IntV 1, IntV 2], edges = [(0, [1, 2])], head = 0\<rparr>"
    by (simp add: ExpressionGraph_def add_or_get_value_def is_op_iff)
  show "ExpressionGraph_hash (\<lambda>v. Inr 0) hash_int combine
        \<lparr>nodes = [OpV Op_add, IntV 1, IntV 2], edges = [(0, [1, 2])], head = 0\<rparr>
       = Inl TypeError"
    by (simp add: ExpressionGraph_hash_def)
qed

section \<open>Construction of parameters\<close>

lemma Parameter_new_table_persists:
  "table s u = Some obj \<Longrightarrow> table (snd (Parameter_new b p s)) u = Some obj"
  by (auto simp: Parameter_new_def Let_def split: sum.splits option.splits parameter_ref.splits)

lemma constructions_table_persists:
  "table s u = Some obj \<Longrightarrow> table (constructions calls s) u = Some obj"
proof (induction calls arbitrary: s)
  case Nil
  then show ?case by simp
next
  case (Cons c calls)
  obtain b p where c: "c = (b, p)" by (cases c)
  from Cons.prems have "table (snd (Parameter_new b p s)) u = Some obj"
    by (rule Parameter_new_table_persists)
  then show ?case using Cons.IH c by simp
qed

lemma Parameter_new_cached:
  "table s (block_id b, i) = Some obj \<Longrightarrow> 0 \<le> i \<Longrightarrow> i < int (length (parameters b))
   \<Longrightarrow> Parameter_new b (ByIndex i) s = (Inr obj, s)"
  by (simp add: Parameter_new_def)

lemma Parameter_new_first:
  "0 \<le> i \<Longrightarrow> i < int (length (parameters b))
   \<Longrightarrow> \<exists>obj. fst (Parameter_new b (ByIndex i) s) = Inr obj
          \<and> table (snd (Parameter_new b (ByIndex i) s)) (block_id b, i) = Some obj"
  by (cases "table s (block_id b, i)") (simp_all add: Parameter_new_def Let_def)

text \<open>
  Claim C5. For every block and every valid index, the first construction
  \<^verbatim>\<open>Parameter(block, index)\<close> returns an object, and after any further constructions of
  parameters the table still maps the pair of the block identity and the index to that
  object, and constructing the parameter once more returns the identical object and
  changes nothing.
\<close>

theorem Parameter_memoization:
  "0 \<le> i \<and> i < int (length (parameters b)) \<longrightarrow>
     (\<exists>obj. fst (Parameter_new b (ByIndex i) s) = Inr obj
        \<and> (\<forall>calls b'. block_id b' = block_id b \<and> i < int (length (parameters b')) \<longrightarrow>
              (let s' = constructions calls (snd (Parameter_new b (ByIndex i) s))
               in table s' (block_id b, i) = Some obj
                \<and> Parameter_new b' (ByIndex i) s' = (Inr obj, s'))))"
proof
  assume valid: "0 \<le> i \<and> i < int (length (parameters b))"
  then obtain obj where first: "fst (Parameter_new b (ByIndex i) s) = Inr obj"
    and cached: "table (snd (Parameter_new b (ByIndex i) s)) (block_id b, i) = Some obj"
    using Parameter_new_first [of i b s] by blast
  have later: "table (constructions calls (snd (Parameter_new b (ByIndex i) s))) (block_id b, i)
                 = Some obj" for calls
    using cached by (rule constructions_table_persists)
  have "Parameter_new b' (ByIndex i) (constructions calls (snd (Parameter_new b (ByIndex i) s)))
          = (Inr obj, constructions calls (snd (Parameter_new b (ByIndex i) s)))"
    if "block_id b' = block_id b" and "i < int (length (parameters b'))" for calls b'
    using later [of calls] that valid by (intro Parameter_new_cached) simp_all
  with first later show
    "\<exists>obj. fst (Parameter_new b (ByIndex i) s) = Inr obj
        \<and> (\<forall>calls b'. block_id b' = block_id b \<and> i < int (length (parameters b')) \<longrightarrow>
              (let s' = constructions calls (snd (Parameter_new b (ByIndex i) s))
               in table s' (block_id b, i) = Some obj
                \<and> Parameter_new b' (ByIndex i) s' = (Inr obj, s')))"
    by (auto simp: Let_def)
qed

theorem Parameter_memoization_witness:
  "(let b = \<lparr>block_id = 7, parameters = [''gain''], find_by_name = (\<lambda>kind name. Inl ValueError)\<rparr>;
        c = \<lparr>block_id = 9, parameters = [''frequency'', ''phase''],
             find_by_name = (\<lambda>kind name. Inl ValueError)\<rparr>;
        s = \<lparr>table = Map.empty, next_object = 0\<rparr>;
        obj = \<lparr>object_id = 0, uid = (7, 0), index = 0, parent = 7\<rparr>;
        s' = constructions [(c, ByIndex 1), (b, ByName ''gain''), (c, ByIndex 5)]
               (snd (Parameter_new b (ByIndex 0) s))
    in (0::int) \<le> 0 \<and> 0 < int (length (parameters b))
     \<and> fst (Parameter_new b (ByIndex 0) s) = Inr obj
     \<and> table s' (7, 0) = Some obj
     \<and> Parameter_new b (ByIndex 0) s' = (Inr obj, s'))"
  using Parameter_memoization
      [of 0 "\<lparr>block_id = 7, parameters = [''gain''], find_by_name = (\<lambda>kind name. Inl ValueError)\<rparr>"
          "\<lparr>table = Map.empty, next_object = 0\<rparr>"]
  by (simp add: Let_def Parameter_new_def find_param_index_by_name_def)

text \<open>
  Claim C9. Constructing a Parameter with an integer index outside
  \<open>0 \<le> index < len(block.parameters)\<close> raises the AssertionError of the check, and
  constructing it with a name that \<^verbatim>\<open>find_param_index_by_name\<close> does not resolve raises
  the error of that lookup, the ValueError when neither \<^verbatim>\<open>block.find_by_name\<close> nor the
  list of names knows the name. In each case the table and the store of objects are
  left as they were: nothing is created or cached.
\<close>

theorem Parameter_invalid:
  "(\<not> (0 \<le> i \<and> i < int (length (parameters b)))
      \<longrightarrow> Parameter_new b (ByIndex i) s = (Inl AssertionError, s))
   \<and> (find_param_index_by_name b name = Inl e
      \<longrightarrow> Parameter_new b (ByName name) s = (Inl e, s))
   \<and> (find_by_name b ''parameters'' name = Inl ValueError \<and> name \<notin> set (parameters b)
      \<longrightarrow> Parameter_new b (ByName name) s = (Inl ValueError, s))"
proof (intro conjI impI)
  assume "\<not> (0 \<le> i \<and> i < int (length (parameters b)))"
  then show "Parameter_new b (ByIndex i) s = (Inl AssertionError, s)"
    by (simp add: Parameter_new_def)
next
  assume "find_param_index_by_name b name = Inl e"
  then show "Parameter_new b (ByName name) s = (Inl e, s)"
    by (simp add: Parameter_new_def)
next
  assume h: "find_by_name b ''parameters'' name = Inl ValueError \<and> name \<notin> set (parameters b)"
  then have "list_index (parameters b) name = None"
    by (simp add: list_index_None)
  with h have "find_param_index_by_name b name = Inl ValueError"
    by (simp add: find_param_index_by_name_def)
  then show "Parameter_new b (ByName name) s = (Inl ValueError, s)"
    by (simp add: Parameter_new_def)
qed

theorem Parameter_invalid_witness:
  "(let b = \<lparr>block_id = 7, parameters = [''gain''], find_by_name = (\<lambda>kind name. Inl ValueError)\<rparr>;
        s = \<lparr>table = Map.empty, next_object = 0\<rparr>
    in \<not> (0 \<le> (1::int) \<and> 1 < int (length (parameters b)))
     \<and> \<not> (0 \<le> (-1::int) \<and> -1 < int (length (parameters b)))
     \<and> find_by_name b ''parameters'' ''mass'' = Inl ValueError
     \<and> ''mass'' \<notin> set (parameters b)
     \<and> find_param_index_by_name b ''mass'' = Inl ValueError
     \<and> Parameter_new b (ByIndex 1) s = (Inl AssertionError, s)
     \<and> Parameter_new b (ByIndex (-1)) s = (Inl AssertionError, s)
     \<and> Parameter_new b (ByName ''mass'') s = (Inl ValueError, s))"
  using Parameter_invalid
      [of 1 "\<lparr>block_id = 7, parameters = [''gain''], find_by_name = (\<lambda>kind name. Inl ValueError)\<rparr>"
          "\<lparr>table = Map.empty, next_object = 0\<rparr>" "''mass''" ValueError]
    Parameter_invalid
      [of "-1" "\<lparr>block_id = 7, parameters = [''gain''], find_by_name = (\<lambda>kind name. Inl ValueError)\<rparr>"
          "\<lparr>table = Map.empty, next_object = 0\<rparr>" "''mass''" ValueError]
  by (simp add: Let_def find_param_index_by_name_def)

section \<open>Casting without a target type\<close>

lemma update_fresh: "k \<notin> fst ` set al \<Longrightarrow> AList.update k v al = al @ [(k, v)]"
  by (induction al) auto

lemma register_all_snoc:
  "register_all (regs @ [(ft, tt, c)]) reg =
     (case register_all regs reg of Inl e \<Rightarrow> Inl e | Inr reg' \<Rightarrow> register ft tt c reg')"
proof (induction regs arbitrary: reg)
  case Nil
  show ?case by (simp split: sum.splits)
next
  case (Cons r regs)
  obtain a b d where r: "r = (a, b, d)" by (cases r)
  show ?case using Cons.IH by (simp add: r split: sum.splits)
qed

lemma register_all_lookup:
  "register_all regs [] = Inr reg \<Longrightarrow>
     map_of reg t = (if converters_for t regs = [] then None else Some (converters_for t regs))"
proof (induction regs arbitrary: reg t rule: rev_induct)
  case Nil
  then show ?case by (simp add: converters_for_def)
next
  case (snoc r regs)
  obtain ft tt c where r: "r = (ft, tt, c)" by (cases r)
  from snoc.prems r obtain reg0 where reg0: "register_all regs [] = Inr reg0"
    and step: "register ft tt c reg0 = Inr reg"
    by (auto simp: register_all_snoc split: sum.splits)
  note IH = snoc.IH [OF reg0]
  show ?case
  proof (cases "map_of reg0 ft")
    case None
    with IH [of ft] have empty: "converters_for ft regs = []" by (simp split: if_splits)
    from step None have reg: "reg = AList.update ft [(tt, c)] reg0"
      by (simp add: register_def)
    show ?thesis
    proof (cases "t = ft")
      case True
      with empty show ?thesis by (simp add: reg r update_conv' converters_for_def)
    next
      case False
      with IH [of t] show ?thesis by (simp add: reg r update_conv' converters_for_def)
    qed
  next
    case (Some casters)
    with IH [of ft] have casters: "casters = converters_for ft regs" by (simp split: if_splits)
    from step Some have fresh: "tt \<notin> fst ` set casters"
      and reg: "reg = AList.update ft (AList.update tt c casters) reg0"
      by (auto simp: register_def split: if_splits)
    show ?thesis
    proof (cases "t = ft")
      case True
      with fresh casters show ?thesis
        by (simp add: reg r update_conv' update_fresh converters_for_def)
    next
      case False
      with IH [of t] show ?thesis by (simp add: reg r update_conv' converters_for_def)
    qed
  qed
qed

text \<open>
  Claim C8. In the registry that any successful sequence of registrations builds, and
  for every value \<open>v\<close>: \<^verbatim>\<open>cast_type(v)\<close> without a target type raises the unknown-cast
  error (NotImplementedError) if no converter is registered for the type of \<open>v\<close>, raises
  the ambiguity error (TypeError) if more than one is registered, and is the call of the
  converter on \<open>v\<close> if exactly one is registered.
\<close>

theorem cast_type_without_target:
  "register_all regs [] = Inr reg \<longrightarrow>
     (converters_for (type_of v) regs = [] \<longrightarrow>
        cast_type type_of reg v None = Inl NotImplementedError)
   \<and> (1 < length (converters_for (type_of v) regs) \<longrightarrow>
        cast_type type_of reg v None = Inl TypeError)
   \<and> (\<forall>t caster. converters_for (type_of v) regs = [(t, caster)] \<longrightarrow>
        cast_type type_of reg v None = caster v)"
proof
  assume "register_all regs [] = Inr reg"
  then have "map_of reg (type_of v)
      = (if converters_for (type_of v) regs = [] then None
         else Some (converters_for (type_of v) regs))"
    by (rule register_all_lookup)
  then show "(converters_for (type_of v) regs = [] \<longrightarrow>
        cast_type type_of reg v None = Inl NotImplementedError)
   \<and> (1 < length (converters_for (type_of v) regs) \<longrightarrow>
        cast_type type_of reg v None = Inl TypeError)
   \<and> (\<forall>t caster. converters_for (type_of v) regs = [(t, caster)] \<longrightarrow>
        cast_type type_of reg v None = caster v)"
    by (auto simp: cast_type_def Let_def)
qed

theorem cast_type_without_target_witness:
  "(let type_of = (\<lambda>v::int. if v < 0 then ''negative'' else if v < 100 then ''small'' else ''big'');
        double = (\<lambda>v::int. Inr (2 * v));
        fail = (\<lambda>v::int. Inl ValueError);
        regs = [(''small'', ''big'', double), (''big'', ''small'', fail),
                (''big'', ''negative'', double)];
        reg = [(''small'', [(''big'', double)]),
               (''big'', [(''small'', fail), (''negative'', double)])]
    in register_all regs [] = Inr reg
     \<and> converters_for (type_of (-5)) regs = []
     \<and> 1 < length (converters_for (type_of 200) regs)
     \<and> converters_for (type_of 7) regs = [(''big'', double)]
     \<and> cast_type type_of reg (-5) None = Inl NotImplementedError
     \<and> cast_type type_of reg 200 None = Inl TypeError
     \<and> cast_type type_of reg 7 None = Inr 14)"
proof -
  let ?type_of = "\<lambda>v::int. if v < 0 then ''negative'' else if v < 100 then ''small'' else ''big''"
  let ?double = "\<lambda>v::int. Inr (2 * v) :: error + int"
  let ?fail = "\<lambda>v::int. Inl ValueError :: error + int"
  let ?regs = "[(''small'', ''big'', ?double), (''big'', ''small'', ?fail),
                (''big'', ''negative'', ?double)]"
  let ?reg = "[(''small'', [(''big'', ?double)]),
               (''big'', [(''small'', ?fail), (''negative'', ?double)])]"
  have built: "register_all ?regs [] = Inr ?reg"
    by (simp add: register_def)
  have convs: "converters_for (?type_of (-5)) ?regs = []"
      "1 < length (converters_for (?type_of 200) ?regs)"
      "converters_for (?type_of 7) ?regs = [(''big'', ?double)]"
    by (simp_all add: converters_for_def)
  from cast_type_without_target [of ?regs ?reg ?type_of "-5"]
       cast_type_without_target [of ?regs ?reg ?type_of 200]
       cast_type_without_target [of ?regs ?reg ?type_of 7]
       built convs
  have "cast_type ?type_of ?reg (-5) None = Inl NotImplementedError"
       "cast_type ?type_of ?reg 200 None = Inl TypeError"
       "cast_type ?type_of ?reg 7 None = Inr 14"
    by simp_all
  with built convs show ?thesis by (simp add: Let_def)
qed

section \<open>Free symbols\<close>

lemma leaf_symbols_spec: "leaf_symbols v = spec_symbols (Leaf v)"
  by (cases v) simp_all

lemma set_union_nonempty: "ss \<noteq> [] \<Longrightarrow> set_union ss = Inr (\<Union> (set ss))"
  by (cases ss) simp_all

lemma traverse_subtrees:
  assumes "\<And>c e. subtree k g c = Some e \<Longrightarrow> has_arguments e
             \<Longrightarrow> f c = Some (Inr (spec_symbols e))"
  shows "those (map (subtree k g) cs) = Some es \<Longrightarrow> list_all has_arguments es
           \<Longrightarrow> traverse f cs = Some (Inr (map spec_symbols es))"
proof (induction cs arbitrary: es)
  case Nil
  then show ?case by simp
next
  case (Cons c cs)
  from Cons.prems(1) obtain e es' where e: "subtree k g c = Some e"
    and es': "those (map (subtree k g) cs) = Some es'" and es: "es = e # es'"
    by (auto split: option.splits)
  from Cons.prems(2) es have "has_arguments e" and rest: "list_all has_arguments es'"
    by simp_all
  with e have "f c = Some (Inr (spec_symbols e))" by (intro assms)
  moreover from Cons.IH [OF es' rest]
  have "traverse f cs = Some (Inr (map spec_symbols es'))" .
  ultimately show ?case by (simp add: es)
qed

lemma symbols_recurse_refines:
  "subtree k g node = Some e \<Longrightarrow> has_arguments e
     \<Longrightarrow> symbols_recurse k g node = Some (Inr (spec_symbols e))"
proof (induction k arbitrary: node e)
  case 0
  then show ?case by simp
next
  case (Suc k)
  from Suc.prems(1) have inside: "\<not> length (nodes g) \<le> node"
    by (auto split: if_splits)
  show ?case
  proof (cases "is_op (nodes g ! node)")
    case False
    with Suc.prems(1) inside have "e = Leaf (nodes g ! node)" by auto
    with False inside show ?thesis by (simp add: leaf_symbols_spec Let_def)
  next
    case True
    with Suc.prems(1) inside obtain children es
      where children: "map_of (edges g) node = Some children"
        and es: "those (map (subtree k g) children) = Some es"
        and e: "e = Apply (nodes g ! node) es"
      by (auto simp: Let_def split: option.splits)
    from Suc.prems(2) e have nonempty: "es \<noteq> []" and all: "list_all has_arguments es"
      by simp_all
    have "traverse (symbols_recurse k g) children = Some (Inr (map spec_symbols es))"
    proof (rule traverse_subtrees [OF _ es all])
      fix c e'
      assume "subtree k g c = Some e'" and "has_arguments e'"
      then show "symbols_recurse k g c = Some (Inr (spec_symbols e'))" by (rule Suc.IH)
    qed
    moreover from nonempty have "set_union (map spec_symbols es)
        = Inr (\<Union>e \<in> set es. spec_symbols e)"
      by (simp add: set_union_nonempty)
    ultimately show ?thesis
      using True inside children e by (simp add: Let_def)
  qed
qed

text \<open>
  Claim C1. For every graph whose head denotes an expression tree in which each operator
  has at least one argument, \<^verbatim>\<open>symbols()\<close> returns the symbol set of that tree: a subtree
  whose root is the signal-evaluation operator contributes the union of the sets of its
  children minus the time variable, a bare SignalReference contributes itself and the
  time variable. For the graph built as \<^verbatim>\<open>1 + var * sig(1) + param\<close> from a Variable, a
  SignalReference and a Parameter, \<^verbatim>\<open>symbols()\<close> is exactly \<open>{var, sig, param}\<close>.
\<close>

theorem symbols_free_symbols:
  "(subtree k g (head g) = Some e \<and> has_arguments e
      \<longrightarrow> ExpressionGraph_symbols k g = Some (Inr (spec_symbols e)))
   \<and> (\<exists>g1 g2 g3 g4.
         SignalReference_call (SigV p n) (Value (IntV 1)) = Inr g1
       \<and> Algebraic_mul (VarV i s) (Graph g1) = Inr g2
       \<and> ExpressionGraph_radd g2 (Value (IntV 1)) = Inr g3
       \<and> ExpressionGraph_add g3 (Value (ParamV b j)) = Inr g4
       \<and> ExpressionGraph_symbols (5 + fuel) g4
           = Some (Inr {VarV i s, SigV p n, ParamV b j}))"
proof (intro conjI impI)
  assume "subtree k g (head g) = Some e \<and> has_arguments e"
  then show "ExpressionGraph_symbols k g = Some (Inr (spec_symbols e))"
    by (simp add: ExpressionGraph_symbols_def symbols_recurse_refines)
next
  let ?g1 = "\<lparr>nodes = [OpV Op_evaluate_signal, SigV p n, IntV 1],
              edges = [(0, [1, 2])], head = 0\<rparr>"
  let ?g2 = "\<lparr>nodes = [OpV Op_mul, VarV i s, OpV Op_evaluate_signal, SigV p n, IntV 1],
              edges = [(2, [3, 4]), (0, [1, 2])], head = 0\<rparr>"
  let ?g3 = "\<lparr>nodes = [OpV Op_mul, VarV i s, OpV Op_evaluate_signal, SigV p n, IntV 1,
                       OpV Op_add],
              edges = [(2, [3, 4]), (0, [1, 2]), (5, [4, 0])], head = 5\<rparr>"
  let ?g4 = "\<lparr>nodes = [OpV Op_mul, VarV i s, OpV Op_evaluate_signal, SigV p n, IntV 1,
                       OpV Op_add, OpV Op_add, ParamV b j],
              edges = [(2, [3, 4]), (0, [1, 2]), (5, [4, 0]), (6, [5, 7])], head = 6\<rparr>"
  have g1: "SignalReference_call (SigV p n) (Value (IntV 1)) = Inr ?g1"
    by (simp add: SignalReference_call_def ExpressionGraph_def add_or_get_value_def is_op_iff)
  have g2: "Algebraic_mul (VarV i s) (Graph ?g1) = Inr ?g2"
    by (simp add: Algebraic_mul_def ExpressionGraph_def add_or_get_value_def is_op_iff
          merge_and_return_subgraph_head_def new_index_def)
  have g3: "ExpressionGraph_radd ?g2 (Value (IntV 1)) = Inr ?g3"
    by (simp add: ExpressionGraph_radd_def push_op_def add_or_get_value_def is_op_iff)
  have g4: "ExpressionGraph_add ?g3 (Value (ParamV b j)) = Inr ?g4"
    by (simp add: ExpressionGraph_add_def push_op_def add_or_get_value_def is_op_iff)
  have tree: "subtree (5 + fuel) ?g4 6
      = Some (Apply (OpV Op_add)
               [Apply (OpV Op_add)
                  [Leaf (IntV 1),
                   Apply (OpV Op_mul)
                     [Leaf (VarV i s),
                      Apply (OpV Op_evaluate_signal) [Leaf (SigV p n), Leaf (IntV 1)]]],
                Leaf (ParamV b j)])"
    by (simp add: numeral_eq_Suc is_op_iff Let_def)
  have "symbols_recurse (5 + fuel) ?g4 6 = Some (Inr {VarV i s, SigV p n, ParamV b j})"
    using symbols_recurse_refines [OF tree]
    by (auto simp: get_time_variable_def)
  then have "ExpressionGraph_symbols (5 + fuel) ?g4 = Some (Inr {VarV i s, SigV p n, ParamV b j})"
    by (simp add: ExpressionGraph_symbols_def)
  with g1 g2 g3 g4 show "\<exists>g1 g2 g3 g4.
         SignalReference_call (SigV p n) (Value (IntV 1)) = Inr g1
       \<and> Algebraic_mul (VarV i s) (Graph g1) = Inr g2
       \<and> ExpressionGraph_radd g2 (Value (IntV 1)) = Inr g3
       \<and> ExpressionGraph_add g3 (Value (ParamV b j)) = Inr g4
       \<and> ExpressionGraph_symbols (5 + fuel) g4
           = Some (Inr {VarV i s, SigV p n, ParamV b j})"
    by blast
qed

theorem symbols_free_symbols_witness:
  "(let g = \<lparr>nodes = [OpV Op_evaluate_signal, SigV 2 3, VarV 0 [1]],
             edges = [(0, [1, 2])], head = 0\<rparr>;
        e = Apply (OpV Op_evaluate_signal) [Leaf (SigV 2 3), Leaf (VarV 0 [1])]
    in subtree 2 g (head g) = Some e \<and> has_arguments e
     \<and> ExpressionGraph_symbols 2 g = Some (Inr {SigV 2 3}))"
  using symbols_free_symbols
      [of 2 "\<lparr>nodes = [OpV Op_evaluate_signal, SigV 2 3, VarV 0 [1]],
                edges = [(0, [1, 2])], head = 0\<rparr>"
          "Apply (OpV Op_evaluate_signal) [Leaf (SigV 2 3), Leaf (VarV 0 [1])]"]
  by (auto simp: Let_def numeral_2_eq_2 is_op_iff get_time_variable_def scalar_shape_def)

text \<open>
  Claim C10. Whenever \<^verbatim>\<open>symbols()\<close> returns a set, empty or not, \<^verbatim>\<open>is_symbolic\<close> returns
  True, because a set is never equal to the empty dict; \<^verbatim>\<open>symbols()\<close> returns on every
  graph whose head denotes an expression tree in which each operator has at least one
  argument. For the graph \<^verbatim>\<open>ExpressionGraph(add, 1, 2)\<close>, whose leaves are numeric
  constants, \<^verbatim>\<open>symbols()\<close> is the empty set and \<^verbatim>\<open>is_symbolic\<close> is True.
\<close>

theorem is_symbolic_always_True:
  "(ExpressionGraph_symbols k g = Some (Inr S)
      \<longrightarrow> ExpressionGraph_is_symbolic k g = Some (Inr True))
   \<and> (subtree k g (head g) = Some e \<and> has_arguments e
      \<longrightarrow> ExpressionGraph_is_symbolic k g = Some (Inr True))
   \<and> ExpressionGraph (OpV Op_add) [Value (IntV 1), Value (IntV 2)]
       = Inr \<lparr>nodes = [OpV Op_add, IntV 1, IntV 2], edges = [(0, [1, 2])], head = 0\<rparr>
   \<and> ExpressionGraph_symbols (2 + fuel)
        \<lparr>nodes = [OpV Op_add, IntV 1, IntV 2], edges = [(0, [1, 2])], head = 0\<rparr>
       = Some (Inr {})
   \<and> ExpressionGraph_is_symbolic (2 + fuel)
        \<lparr>nodes = [OpV Op_add, IntV 1, IntV 2], edges = [(0, [1, 2])], head = 0\<rparr>
       = Some (Inr True)"
proof (intro conjI impI)
  assume "ExpressionGraph_symbols k g = Some (Inr S)"
  then show "ExpressionGraph_is_symbolic k g = Some (Inr True)"
    by (simp add: ExpressionGraph_is_symbolic_def)
next
  assume "subtree k g (head g) = Some e \<and> has_arguments e"
  then have "ExpressionGraph_symbols k g = Some (Inr (spec_symbols e))"
    by (simp add: ExpressionGraph_symbols_def symbols_recurse_refines)
  then show "ExpressionGraph_is_symbolic k g = Some (Inr True)"
    by (simp add: ExpressionGraph_is_symbolic_def)
next
  let ?g = "\<lparr>nodes = [OpV Op_add, IntV 1, IntV 2], edges = [(0, [1, 2])], head = 0\<rparr>"
  show "ExpressionGraph (OpV Op_add) [Value (IntV 1), Value (IntV 2)] = Inr ?g"
    by (simp add: ExpressionGraph_def add_or_get_value_def is_op_iff)
  show empty: "ExpressionGraph_symbols (2 + fuel) ?g = Some (Inr {})"
    by (simp add: ExpressionGraph_symbols_def is_op_iff Let_def numeral_2_eq_2)
  then show "ExpressionGraph_is_symbolic (2 + fuel) ?g = Some (Inr True)"
    by (simp add: ExpressionGraph_is_symbolic_def)
qed

theorem is_symbolic_always_True_witness:
  "(let g = \<lparr>nodes = [OpV Op_neg, IntV 4], edges = [(0, [1])], head = 0\<rparr>;
        e = Apply (OpV Op_neg) [Leaf (IntV 4)]
    in ExpressionGraph_symbols 2 g = Some (Inr {})
     \<and> subtree 2 g (head g) = Some e \<and> has_arguments e
     \<and> ExpressionGraph_is_symbolic 2 g = Some (Inr True))"
  using is_symbolic_always_True
      [of 2 "\<lparr>nodes = [OpV Op_neg, IntV 4], edges = [(0, [1])], head = 0\<rparr>" "{}"
          "Apply (OpV Op_neg) [Leaf (IntV 4)]"]
  by (auto simp: Let_def numeral_2_eq_2 is_op_iff ExpressionGraph_symbols_def)

end
